theory Spec2Isabelle
  imports Main "HOL-Library.AList"
begin

section \<open>Data model of the signalling server\<close>

text \<open>
  The server keeps three module-level JavaScript \<open>Map\<close>s (\<open>transports\<close>, \<open>producers\<close>,
  \<open>consumers\<close>) and one property per socket (\<open>socket.rtpCapabilities\<close>). A JavaScript
  \<open>Map\<close> remembers insertion order, \<open>set\<close> on a present key overwrites the value in place
  and \<open>set\<close> on a fresh key appends: this is an association list with \<open>AList.update\<close>,
  \<open>AList.delete\<close> and \<open>map_of\<close> for \<open>set\<close>, \<open>delete\<close> and \<open>get\<close>.

  Identifiers and the opaque blobs handed through from the media engine (ICE and DTLS
  parameters, RTP parameters and capabilities) are strings.
\<close>

type_synonym socket_id = string
type_synonym json = string

record transport =
  transport_id :: string
  iceParameters :: json
  iceCandidates :: json
  dtlsParameters :: json

record producer =
  producer_id :: string
  producer_kind :: string

record consumer =
  consumer_id :: string
  consumer_producerId :: string
  consumer_kind :: string
  consumer_rtpParameters :: json

text \<open>The values stored in \<open>producers\<close> and \<open>consumers\<close>: the handle and the owning socket.\<close>

record producerData =
  producer :: producer
  p_socketId :: socket_id

record consumerData =
  consumer :: consumer
  c_socketId :: socket_id

text \<open>
  Every \<open>throw new Error(...)\<close> of the handlers, and a rejection coming out of the media
  engine, whose message is forwarded as it is. \<open>message\<close> is \<open>error.message\<close>.
\<close>

datatype error =
    ProducerTransportNotFound
  | ConsumerTransportNotFound
  | ProducerNotFound
  | CapabilitiesUnset
  | IncompatibleCapabilities
  | ConsumerNotFound
  | EngineFailure string

fun message :: "error \<Rightarrow> string" where
  "message ProducerTransportNotFound = ''Producer transport not found''"
| "message ConsumerTransportNotFound = ''Consumer transport not found''"
| "message ProducerNotFound = ''Producer not found''"
| "message CapabilitiesUnset = ''RTP capabilities not set''"
| "message IncompatibleCapabilities = ''Cannot consume - incompatible RTP capabilities''"
| "message ConsumerNotFound = ''Consumer not found''"
| "message (EngineFailure m) = m"

text \<open>
  A call into the media engine either throws (\<open>Inl\<close> of the message) or returns a value.
  The engine is outside the program, so the outcome of each call a handler makes is an
  argument of that handler.
\<close>

type_synonym 'a engine_result = "string + 'a"

text \<open>What a handler passes to the acknowledgement callback of its request.\<close>

datatype response =
    RouterRtpCapabilities json
  | TransportOptions string json json json
  | ErrorResponse string
  | Success
  | ProduceResponse string
  | ConsumeResponse string string string json
  | ProducerList "(string \<times> socket_id) list"

datatype notification =
    NewProducer string socket_id
  | ProducerClosed string

datatype engine_call =
    CreateWebRtcTransport
  | TransportConnect string json
  | TransportProduce string string json
  | RouterCanConsume string json
  | TransportConsume string string json bool
  | ConsumerResume string
  | TransportClose string
  | ProducerClose string
  | ConsumerClose string

text \<open>
  Everything a handler does to the outside, in program order: the callback of the
  request (with the socket it answers), \<open>socket.broadcast.emit\<close> (with the emitting
  socket) and the calls on engine objects.
\<close>

datatype effect =
    Callback socket_id response
  | BroadcastEmit socket_id notification
  | Engine engine_call

record state =
  transports :: "(string \<times> transport) list"
  producers :: "(string \<times> producerData) list"
  consumers :: "(string \<times> consumerData) list"
  rtpCapabilities :: "socket_id \<Rightarrow> json option"
  trace :: "effect list"

definition init :: state where
  "init = \<lparr>transports = [], producers = [], consumers = [],
           rtpCapabilities = (\<lambda>_. None), trace = []\<rparr>"

definition registries ::
  "state \<Rightarrow> (string \<times> transport) list \<times> (string \<times> producerData) list \<times> (string \<times> consumerData) list" where
  "registries s = (transports s, producers s, consumers s)"

section \<open>Statements\<close>

text \<open>A handler body is a sequence of statements, each a state transformer.\<close>

definition exec :: "(state \<Rightarrow> state) list \<Rightarrow> state \<Rightarrow> state" where
  "exec stmts s = fold (\<lambda>stmt. stmt) stmts s"

definition emit :: "effect \<Rightarrow> state \<Rightarrow> state" where
  "emit e s = s\<lparr>trace := trace s @ [e]\<rparr>"

definition callback :: "socket_id \<Rightarrow> response \<Rightarrow> state \<Rightarrow> state" where
  "callback sid r = emit (Callback sid r)"

definition broadcast_emit :: "socket_id \<Rightarrow> notification \<Rightarrow> state \<Rightarrow> state" where
  "broadcast_emit sid n = emit (BroadcastEmit sid n)"

definition engine :: "engine_call \<Rightarrow> state \<Rightarrow> state" where
  "engine c = emit (Engine c)"

text \<open>The \<open>catch (error)\<close> block of every handler: \<open>callback({ error: error.message })\<close>.\<close>

definition catch_error :: "socket_id \<Rightarrow> error \<Rightarrow> state \<Rightarrow> state" where
  "catch_error sid e = callback sid (ErrorResponse (message e))"

definition transports_set :: "string \<Rightarrow> transport \<Rightarrow> state \<Rightarrow> state" where
  "transports_set k t s = s\<lparr>transports := AList.update k t (transports s)\<rparr>"

definition transports_delete :: "string \<Rightarrow> state \<Rightarrow> state" where
  "transports_delete k s = s\<lparr>transports := AList.delete k (transports s)\<rparr>"

definition producers_set :: "string \<Rightarrow> producerData \<Rightarrow> state \<Rightarrow> state" where
  "producers_set k d s = s\<lparr>producers := AList.update k d (producers s)\<rparr>"

definition producers_delete :: "string \<Rightarrow> state \<Rightarrow> state" where
  "producers_delete k s = s\<lparr>producers := AList.delete k (producers s)\<rparr>"

definition consumers_set :: "string \<Rightarrow> consumerData \<Rightarrow> state \<Rightarrow> state" where
  "consumers_set k d s = s\<lparr>consumers := AList.update k d (consumers s)\<rparr>"

definition consumers_delete :: "string \<Rightarrow> state \<Rightarrow> state" where
  "consumers_delete k s = s\<lparr>consumers := AList.delete k (consumers s)\<rparr>"

text \<open>The two keys of a socket in \<open>transports\<close>: \<open>`${socket.id}-producer`\<close> and
  \<open>`${socket.id}-consumer`\<close>.\<close>

definition producer_key :: "socket_id \<Rightarrow> string" where
  "producer_key sid = sid @ ''-producer''"

definition consumer_key :: "socket_id \<Rightarrow> string" where
  "consumer_key sid = sid @ ''-consumer''"

section \<open>Request handlers\<close>

text \<open>
  Each handler runs for the socket \<open>sid\<close> that sent the request. Requests are well formed:
  the payload is an object and an acknowledgement callback is present. A handler is
  modelled as one atomic step; the suspension at an \<open>await\<close> is not modelled.
\<close>

definition getRouterRtpCapabilities :: "socket_id \<Rightarrow> json \<Rightarrow> state \<Rightarrow> state" where
  "getRouterRtpCapabilities sid routerCaps s = callback sid (RouterRtpCapabilities routerCaps) s"

definition transportOptions :: "transport \<Rightarrow> response" where
  "transportOptions t =
     TransportOptions (transport_id t) (iceParameters t) (iceCandidates t) (dtlsParameters t)"

definition createProducerTransport :: "socket_id \<Rightarrow> transport engine_result \<Rightarrow> state \<Rightarrow> state" where
  "createProducerTransport sid res s =
     (let s1 = engine CreateWebRtcTransport s in
      case res of
        Inl m \<Rightarrow> catch_error sid (EngineFailure m) s1
      | Inr transport \<Rightarrow>
          exec [transports_set (producer_key sid) transport,
                callback sid (transportOptions transport)] s1)"

definition createConsumerTransport :: "socket_id \<Rightarrow> transport engine_result \<Rightarrow> state \<Rightarrow> state" where
  "createConsumerTransport sid res s =
     (let s1 = engine CreateWebRtcTransport s in
      case res of
        Inl m \<Rightarrow> catch_error sid (EngineFailure m) s1
      | Inr transport \<Rightarrow>
          exec [transports_set (consumer_key sid) transport,
                callback sid (transportOptions transport)] s1)"

text \<open>\<open>transport.connect\<close> returns nothing: its outcome is \<open>Inl m\<close> or \<open>Inr ()\<close>.\<close>

definition connectProducerTransport ::
  "socket_id \<Rightarrow> json \<Rightarrow> unit engine_result \<Rightarrow> state \<Rightarrow> state" where
  "connectProducerTransport sid dtls res s =
     (case map_of (transports s) (producer_key sid) of
        None \<Rightarrow> catch_error sid ProducerTransportNotFound s
      | Some transport \<Rightarrow>
          (let s1 = engine (TransportConnect (transport_id transport) dtls) s in
           case res of
             Inl m \<Rightarrow> catch_error sid (EngineFailure m) s1
           | Inr _ \<Rightarrow> callback sid Success s1))"

definition connectConsumerTransport ::
  "socket_id \<Rightarrow> json \<Rightarrow> unit engine_result \<Rightarrow> state \<Rightarrow> state" where
  "connectConsumerTransport sid dtls res s =
     (case map_of (transports s) (consumer_key sid) of
        None \<Rightarrow> catch_error sid ConsumerTransportNotFound s
      | Some transport \<Rightarrow>
          (let s1 = engine (TransportConnect (transport_id transport) dtls) s in
           case res of
             Inl m \<Rightarrow> catch_error sid (EngineFailure m) s1
           | Inr _ \<Rightarrow> callback sid Success s1))"

text \<open>The statements of \<open>produce\<close> after \<open>transport.produce\<close> has returned the new producer.\<close>

definition produce_commit :: "socket_id \<Rightarrow> producer \<Rightarrow> (state \<Rightarrow> state) list" where
  "produce_commit sid new_producer =
     [producers_set (producer_id new_producer) \<lparr>producer = new_producer, p_socketId = sid\<rparr>,
      broadcast_emit sid (NewProducer (producer_id new_producer) sid),
      callback sid (ProduceResponse (producer_id new_producer))]"

definition produce ::
  "socket_id \<Rightarrow> string \<Rightarrow> json \<Rightarrow> producer engine_result \<Rightarrow> state \<Rightarrow> state" where
  "produce sid kind rtpParameters res s =
     (case map_of (transports s) (producer_key sid) of
        None \<Rightarrow> catch_error sid ProducerTransportNotFound s
      | Some transport \<Rightarrow>
          (let s1 = engine (TransportProduce (transport_id transport) kind rtpParameters) s in
           case res of
             Inl m \<Rightarrow> catch_error sid (EngineFailure m) s1
           | Inr new_producer \<Rightarrow> exec (produce_commit sid new_producer) s1))"

text \<open>
  \<open>consume\<close>: the checks in the order of the source. \<open>socket.rtpCapabilities\<close> is \<open>None\<close>
  while it is \<open>undefined\<close> (or any other falsy value). \<open>canConsume\<close> is what
  \<open>router.canConsume\<close> answers and \<open>res\<close> the outcome of \<open>transport.consume\<close>, which is
  called with \<open>paused: true\<close>.
\<close>

definition consume ::
  "socket_id \<Rightarrow> string \<Rightarrow> bool \<Rightarrow> consumer engine_result \<Rightarrow> state \<Rightarrow> state" where
  "consume sid producerId canConsume res s =
     (case map_of (transports s) (consumer_key sid) of
        None \<Rightarrow> catch_error sid ConsumerTransportNotFound s
      | Some transport \<Rightarrow>
     (case map_of (producers s) producerId of
        None \<Rightarrow> catch_error sid ProducerNotFound s
      | Some producerData \<Rightarrow>
     (case rtpCapabilities s sid of
        None \<Rightarrow> catch_error sid CapabilitiesUnset s
      | Some caps \<Rightarrow>
          (let s1 = engine (RouterCanConsume producerId caps) s in
           if \<not> canConsume then catch_error sid IncompatibleCapabilities s1
           else
             (let s2 = engine (TransportConsume (transport_id transport) producerId caps True) s1 in
              case res of
                Inl m \<Rightarrow> catch_error sid (EngineFailure m) s2
              | Inr new_consumer \<Rightarrow>
                  exec [consumers_set (consumer_id new_consumer)
                          \<lparr>consumer = new_consumer, c_socketId = sid\<rparr>,
                        callback sid (ConsumeResponse (consumer_id new_consumer) producerId
                          (consumer_kind new_consumer) (consumer_rtpParameters new_consumer))] s2)))))"

definition resumeConsumer ::
  "socket_id \<Rightarrow> string \<Rightarrow> unit engine_result \<Rightarrow> state \<Rightarrow> state" where
  "resumeConsumer sid consumerId res s =
     (case map_of (consumers s) consumerId of
        None \<Rightarrow> catch_error sid ConsumerNotFound s
      | Some consumerData \<Rightarrow>
          (let s1 = engine (ConsumerResume (consumer_id (consumer consumerData))) s in
           case res of
             Inl m \<Rightarrow> catch_error sid (EngineFailure m) s1
           | Inr _ \<Rightarrow> callback sid Success s1))"

text \<open>\<open>Array.from(producers.values()).filter(...).map(...)\<close>.\<close>

definition producerList :: "socket_id \<Rightarrow> state \<Rightarrow> (string \<times> socket_id) list" where
  "producerList sid s =
     map (\<lambda>p. (producer_id (producer p), p_socketId p))
       (filter (\<lambda>p. p_socketId p \<noteq> sid) (map snd (producers s)))"

definition getProducers :: "socket_id \<Rightarrow> state \<Rightarrow> state" where
  "getProducers sid s = callback sid (ProducerList (producerList sid s)) s"

definition setRtpCapabilities :: "socket_id \<Rightarrow> json option \<Rightarrow> state \<Rightarrow> state" where
  "setRtpCapabilities sid caps s = s\<lparr>rtpCapabilities := (rtpCapabilities s)(sid := caps)\<rparr>"

text \<open>
  The two \<open>forEach\<close> loops of the disconnect handler, over the entries in insertion
  order. The body deletes only the entry being visited, which leaves the entries still
  to visit as they were.
\<close>

fun producers_forEach :: "socket_id \<Rightarrow> (string \<times> producerData) list \<Rightarrow> state \<Rightarrow> state" where
  "producers_forEach sid [] s = s"
| "producers_forEach sid ((producerId, producerData) # rest) s =
     producers_forEach sid rest
       (if p_socketId producerData = sid
        then exec [engine (ProducerClose (producer_id (producer producerData))),
                   producers_delete producerId,
                   broadcast_emit sid (ProducerClosed producerId)] s
        else s)"

fun consumers_forEach :: "socket_id \<Rightarrow> (string \<times> consumerData) list \<Rightarrow> state \<Rightarrow> state" where
  "consumers_forEach sid [] s = s"
| "consumers_forEach sid ((consumerId, consumerData) # rest) s =
     consumers_forEach sid rest
       (if c_socketId consumerData = sid
        then exec [engine (ConsumerClose (consumer_id (consumer consumerData))),
                   consumers_delete consumerId] s
        else s)"

definition close_transport :: "string \<Rightarrow> transport option \<Rightarrow> state \<Rightarrow> state" where
  "close_transport key found s =
     (case found of
        None \<Rightarrow> s
      | Some t \<Rightarrow> exec [engine (TransportClose (transport_id t)), transports_delete key] s)"

definition disconnect :: "socket_id \<Rightarrow> state \<Rightarrow> state" where
  "disconnect sid s =
     (let producerTransport = map_of (transports s) (producer_key sid);
          consumerTransport = map_of (transports s) (consumer_key sid)
      in exec [close_transport (producer_key sid) producerTransport,
               close_transport (consumer_key sid) consumerTransport,
               (\<lambda>s. producers_forEach sid (producers s) s),
               (\<lambda>s. consumers_forEach sid (consumers s) s)] s)"

section \<open>Runs of the server\<close>

datatype request =
    GetRouterRtpCapabilities json
  | CreateProducerTransport "transport engine_result"
  | CreateConsumerTransport "transport engine_result"
  | ConnectProducerTransport json "unit engine_result"
  | ConnectConsumerTransport json "unit engine_result"
  | Produce string json "producer engine_result"
  | Consume string bool "consumer engine_result"
  | ResumeConsumer string "unit engine_result"
  | GetProducers
  | SetRtpCapabilities "json option"
  | Disconnect

fun handle :: "socket_id \<times> request \<Rightarrow> state \<Rightarrow> state" where
  "handle (sid, GetRouterRtpCapabilities c) = getRouterRtpCapabilities sid c"
| "handle (sid, CreateProducerTransport r) = createProducerTransport sid r"
| "handle (sid, CreateConsumerTransport r) = createConsumerTransport sid r"
| "handle (sid, ConnectProducerTransport d r) = connectProducerTransport sid d r"
| "handle (sid, ConnectConsumerTransport d r) = connectConsumerTransport sid d r"
| "handle (sid, Produce k p r) = produce sid k p r"
| "handle (sid, Consume pid c r) = consume sid pid c r"
| "handle (sid, ResumeConsumer cid r) = resumeConsumer sid cid r"
| "handle (sid, GetProducers) = getProducers sid"
| "handle (sid, SetRtpCapabilities c) = setRtpCapabilities sid c"
| "handle (sid, Disconnect) = disconnect sid"

definition run :: "(socket_id \<times> request) list \<Rightarrow> state \<Rightarrow> state" where
  "run reqs s = fold handle reqs s"

text \<open>The effects a step from \<open>s\<close> to \<open>s'\<close> added to the trace.\<close>

definition emitted :: "state \<Rightarrow> state \<Rightarrow> effect list" where
  "emitted s s' = drop (length (trace s)) (trace s')"

text \<open>
  \<open>socket.broadcast.emit\<close> of socket.io delivers to every connected socket but the
  emitting one: \<open>inbox q es\<close> is what a socket \<open>q\<close>, connected throughout, receives from
  the effects \<open>es\<close>.
\<close>

fun inbox :: "socket_id \<Rightarrow> effect list \<Rightarrow> notification list" where
  "inbox q [] = []"
| "inbox q (BroadcastEmit sender n # es) = (if sender \<noteq> q then n # inbox q es else inbox q es)"
| "inbox q (_ # es) = inbox q es"

fun callbacks :: "effect list \<Rightarrow> response list" where
  "callbacks [] = []"
| "callbacks (Callback sid r # es) = r # callbacks es"
| "callbacks (_ # es) = callbacks es"

section \<open>What the disconnect handler does, in closed form\<close>

text \<open>
  The effects of the two loops and of closing a transport, and the keys of the entries a
  socket owns. They are used to state what \<open>disconnect\<close> computes.
\<close>

definition producers_closing :: "socket_id \<Rightarrow> (string \<times> producerData) list \<Rightarrow> effect list" where
  "producers_closing sid xs =
     concat (map (\<lambda>(producerId, producerData).
       if p_socketId producerData = sid
       then [Engine (ProducerClose (producer_id (producer producerData))),
             BroadcastEmit sid (ProducerClosed producerId)]
       else []) xs)"

definition consumers_closing :: "socket_id \<Rightarrow> (string \<times> consumerData) list \<Rightarrow> effect list" where
  "consumers_closing sid xs =
     concat (map (\<lambda>(consumerId, consumerData).
       if c_socketId consumerData = sid
       then [Engine (ConsumerClose (consumer_id (consumer consumerData)))]
       else []) xs)"

definition owned_producers :: "socket_id \<Rightarrow> (string \<times> producerData) list \<Rightarrow> string list" where
  "owned_producers sid xs = map fst (filter (\<lambda>e. p_socketId (snd e) = sid) xs)"

definition owned_consumers :: "socket_id \<Rightarrow> (string \<times> consumerData) list \<Rightarrow> string list" where
  "owned_consumers sid xs = map fst (filter (\<lambda>e. c_socketId (snd e) = sid) xs)"

definition transport_closing :: "transport option \<Rightarrow> effect list" where
  "transport_closing found =
     (case found of None \<Rightarrow> [] | Some t \<Rightarrow> [Engine (TransportClose (transport_id t))])"

text \<open>
  A \<open>Map\<close> holds each key once: \<open>maps_distinct\<close> says so of the three association
  lists. \<open>keyed_by_id\<close>: every entry of \<open>producers\<close> is stored under the id of its own
  producer.
\<close>

definition maps_distinct :: "state \<Rightarrow> bool" where
  "maps_distinct s \<longleftrightarrow>
     distinct (map fst (transports s)) \<and> distinct (map fst (producers s))
     \<and> distinct (map fst (consumers s))"

definition keyed_by_id :: "state \<Rightarrow> bool" where
  "keyed_by_id s = list_all (\<lambda>(producerId, d). producer_id (producer d) = producerId) (producers s)"

text \<open>
  The states a sequence of statements passes through, from the state before the first
  statement to the state after the last, and the producer ids that the \<open>newProducer\<close>
  broadcasts among some effects have announced.
\<close>

definition steps :: "(state \<Rightarrow> state) list \<Rightarrow> state \<Rightarrow> state list" where
  "steps stmts s = map (\<lambda>n. exec (take n stmts) s) [0..<Suc (length stmts)]"

fun announced :: "effect list \<Rightarrow> string list" where
  "announced [] = []"
| "announced (BroadcastEmit sender (NewProducer producerId owner) # es) = producerId # announced es"
| "announced (_ # es) = announced es"

section \<open>The client's handler of \<open>producerClosed\<close>\<close>

text \<open>
  The page \<open>Stream.tsx\<close> keeps, per client, the producers it has consumed or is consuming
  (\<open>consumedProducersRef\<close>), the producers waiting to be consumed, the remote streams
  on display (one per consumer, under the consumer's id) and its own \<open>Map\<close> of
  consumers. \<open>closed\<close> records, in order, the consumers on which \<open>close()\<close> was called.

  \<open>handleProducerClosed\<close> runs on every \<open>producerClosed\<close> the client receives. The callback
  it gives to \<open>prev.filter\<close> closes and deletes the consumer of each stream it drops:
  \<open>remoteStreams_filter\<close> is that filter, with the client threaded through.
\<close>

record remoteStream =
  rs_id :: string
  rs_stream :: json
  rs_socketId :: socket_id
  rs_producerId :: string

record client =
  consumedProducersRef :: "string list"
  pendingProducers :: "(string \<times> socket_id) list"
  remoteStreams :: "remoteStream list"
  consumersRef :: "(string \<times> consumer) list"
  closed :: "string list"

fun remoteStreams_filter :: "string \<Rightarrow> remoteStream list \<Rightarrow> client \<Rightarrow> remoteStream list \<times> client" where
  "remoteStreams_filter producerId [] c = ([], c)"
| "remoteStreams_filter producerId (stream # rest) c =
     (if rs_producerId stream = producerId
      then remoteStreams_filter producerId rest
             (case map_of (consumersRef c) (rs_id stream) of
                None \<Rightarrow> c
              | Some found \<Rightarrow>
                  c\<lparr>closed := closed c @ [consumer_id found],
                    consumersRef := AList.delete (rs_id stream) (consumersRef c)\<rparr>)
      else (case remoteStreams_filter producerId rest c of
              (kept, c') \<Rightarrow> (stream # kept, c')))"

definition handleProducerClosed :: "string \<Rightarrow> client \<Rightarrow> client" where
  "handleProducerClosed producerId c =
     (let c1 = c\<lparr>consumedProducersRef := removeAll producerId (consumedProducersRef c)\<rparr>;
          c2 = c1\<lparr>pendingProducers := filter (\<lambda>p. fst p \<noteq> producerId) (pendingProducers c1)\<rparr>
      in case remoteStreams_filter producerId (remoteStreams c2) c2 of
           (kept, c3) \<Rightarrow> c3\<lparr>remoteStreams := kept\<rparr>)"

section \<open>An example run\<close>

text \<open>
  Socket \<open>A\<close> creates and connects a send transport and produces the video track
  \<open>p1\<close>; socket \<open>B\<close> creates a receive transport, declares its capabilities and
  consumes \<open>p1\<close>. The states of this run are the concrete inputs of the examples below.
\<close>

definition tA :: transport where
  "tA = \<lparr>transport_id = ''tA'', iceParameters = ''ice'', iceCandidates = ''cand'',
          dtlsParameters = ''dtls''\<rparr>"

definition tB :: transport where
  "tB = \<lparr>transport_id = ''tB'', iceParameters = ''ice'', iceCandidates = ''cand'',
          dtlsParameters = ''dtls''\<rparr>"

definition p1 :: producer where
  "p1 = \<lparr>producer_id = ''p1'', producer_kind = ''video''\<rparr>"

definition c1 :: consumer where
  "c1 = \<lparr>consumer_id = ''c1'', consumer_producerId = ''p1'', consumer_kind = ''video'',
          consumer_rtpParameters = ''rtp''\<rparr>"

definition A_produces :: "(socket_id \<times> request) list" where
  "A_produces =
     [(''A'', CreateProducerTransport (Inr tA)),
      (''A'', ConnectProducerTransport ''dtls'' (Inr ())),
      (''A'', Produce ''video'' ''rtp'' (Inr p1))]"

definition B_joins :: "(socket_id \<times> request) list" where
  "B_joins =
     [(''B'', CreateConsumerTransport (Inr tB)),
      (''B'', SetRtpCapabilities (Some ''caps''))]"

definition B_consumes :: "(socket_id \<times> request) list" where
  "B_consumes = [(''B'', Consume ''p1'' True (Inr c1))]"

definition A_live :: state where
  "A_live = run A_produces init"

definition B_ready :: state where
  "B_ready = run (A_produces @ B_joins) init"

definition B_watching :: state where
  "B_watching = run (A_produces @ B_joins @ B_consumes) init"

text \<open>The client of \<open>B\<close> once it shows the stream of \<open>p1\<close>.\<close>

definition B_client :: client where
  "B_client = \<lparr>consumedProducersRef = [''p1''], pendingProducers = [],
     remoteStreams = [\<lparr>rs_id = ''c1'', rs_stream = ''media'', rs_socketId = ''A'',
                       rs_producerId = ''p1''\<rparr>],
     consumersRef = [(''c1'', c1)], closed = []\<rparr>"

section \<open>Basic facts\<close>

lemma key_simps [simp]:
  "producer_key a = producer_key b \<longleftrightarrow> a = b"
  "consumer_key a = consumer_key b \<longleftrightarrow> a = b"
  "producer_key a \<noteq> consumer_key b"
  "consumer_key a \<noteq> producer_key b"
  by (simp_all add: producer_key_def consumer_key_def)

lemmas stmt_defs =
  exec_def emit_def callback_def broadcast_emit_def engine_def catch_error_def
  transports_set_def transports_delete_def producers_set_def producers_delete_def
  consumers_set_def consumers_delete_def

section \<open>The disconnect cascade\<close>

lemma delete_filter: "AList.delete k al = filter (\<lambda>e. fst e \<noteq> k) al"
  by (induction al) auto

lemma producers_forEach_eq:
  "producers_forEach sid xs s =
     s\<lparr>producers := filter (\<lambda>e. fst e \<notin> set (owned_producers sid xs)) (producers s),
       trace := trace s @ producers_closing sid xs\<rparr>"
proof (induction xs arbitrary: s)
  case Nil
  show ?case by (simp add: owned_producers_def producers_closing_def)
next
  case (Cons x xs)
  obtain k d where x: "x = (k, d)" by (cases x)
  show ?case
    unfolding x
    by (simp add: Cons.IH stmt_defs owned_producers_def producers_closing_def delete_filter
        conj_commute cong: filter_cong)
qed

lemma consumers_forEach_eq:
  "consumers_forEach sid xs s =
     s\<lparr>consumers := filter (\<lambda>e. fst e \<notin> set (owned_consumers sid xs)) (consumers s),
       trace := trace s @ consumers_closing sid xs\<rparr>"
proof (induction xs arbitrary: s)
  case Nil
  show ?case by (simp add: owned_consumers_def consumers_closing_def)
next
  case (Cons x xs)
  obtain k d where x: "x = (k, d)" by (cases x)
  show ?case
    unfolding x
    by (simp add: Cons.IH stmt_defs owned_consumers_def consumers_closing_def delete_filter
        conj_commute cong: filter_cong)
qed

lemma close_transport_eq:
  "close_transport key (map_of (transports s) key) s =
     s\<lparr>transports := AList.delete key (transports s),
       trace := trace s @ transport_closing (map_of (transports s) key)\<rparr>"
proof (cases "map_of (transports s) key")
  case None
  then have "key \<notin> fst ` set (transports s)"
    by (simp add: map_of_eq_None_iff)
  then show ?thesis
    using None by (simp add: close_transport_def transport_closing_def)
next
  case (Some t)
  then show ?thesis
    by (simp add: close_transport_def transport_closing_def stmt_defs)
qed

lemma close_transport_other:
  "key' \<noteq> key \<Longrightarrow>
   close_transport key' (map_of (transports s) key')
     (close_transport key (map_of (transports s) key) s) =
     s\<lparr>transports := AList.delete key' (AList.delete key (transports s)),
       trace := trace s @ transport_closing (map_of (transports s) key)
                @ transport_closing (map_of (transports s) key')\<rparr>"
proof -
  assume ne: "key' \<noteq> key"
  let ?s1 = "close_transport key (map_of (transports s) key) s"
  have "map_of (transports ?s1) key' = map_of (transports s) key'"
    using ne by (simp add: close_transport_eq)
  then have "close_transport key' (map_of (transports s) key') ?s1
     = close_transport key' (map_of (transports ?s1) key') ?s1" by simp
  also have "\<dots> = ?s1\<lparr>transports := AList.delete key' (transports ?s1),
       trace := trace ?s1 @ transport_closing (map_of (transports ?s1) key')\<rparr>"
    by (rule close_transport_eq)
  finally show ?thesis
    using ne by (simp add: close_transport_eq)
qed

lemma disconnect_eq:
  "disconnect sid s =
     s\<lparr>transports := AList.delete (consumer_key sid) (AList.delete (producer_key sid) (transports s)),
       producers := filter (\<lambda>e. fst e \<notin> set (owned_producers sid (producers s))) (producers s),
       consumers := filter (\<lambda>e. fst e \<notin> set (owned_consumers sid (consumers s))) (consumers s),
       trace := trace s
         @ transport_closing (map_of (transports s) (producer_key sid))
         @ transport_closing (map_of (transports s) (consumer_key sid))
         @ producers_closing sid (producers s)
         @ consumers_closing sid (consumers s)\<rparr>"
  by (simp add: disconnect_def exec_def Let_def close_transport_other producers_forEach_eq
      consumers_forEach_eq)

lemma owned_producers_after:
  "owned_producers sid (filter (\<lambda>e. fst e \<notin> set (owned_producers sid ps)) ps) = []"
  by (auto simp: owned_producers_def filter_empty_conv)

lemma owned_consumers_after:
  "owned_consumers sid (filter (\<lambda>e. fst e \<notin> set (owned_consumers sid cs)) cs) = []"
  by (auto simp: owned_consumers_def filter_empty_conv)

lemma producers_closing_none:
  "owned_producers sid xs = [] \<Longrightarrow> producers_closing sid xs = []"
  by (induction xs) (auto simp: owned_producers_def producers_closing_def split: if_splits)

lemma consumers_closing_none:
  "owned_consumers sid xs = [] \<Longrightarrow> consumers_closing sid xs = []"
  by (induction xs) (auto simp: owned_consumers_def consumers_closing_def split: if_splits)

lemma transports_after_disconnect:
  "map_of (AList.delete (consumer_key sid) (AList.delete (producer_key sid) ts)) (producer_key sid) = None"
  "map_of (AList.delete (consumer_key sid) (AList.delete (producer_key sid) ts)) (consumer_key sid) = None"
  by (simp_all add: AList.delete_conv')

lemma emitted_append [simp]:
  "trace s' = trace s @ es \<Longrightarrow> emitted s s' = es"
  by (simp add: emitted_def)

lemma inbox_append: "inbox q (es @ es') = inbox q es @ inbox q es'"
  by (induction q es rule: inbox.induct) auto

lemma producers_closing_simps:
  "producers_closing sid [] = []"
  "producers_closing sid ((k, d) # xs) =
     (if p_socketId d = sid
      then Engine (ProducerClose (producer_id (producer d)))
           # BroadcastEmit sid (ProducerClosed k) # producers_closing sid xs
      else producers_closing sid xs)"
  by (simp_all add: producers_closing_def)

lemma consumers_closing_simps:
  "consumers_closing sid [] = []"
  "consumers_closing sid ((k, d) # xs) =
     (if c_socketId d = sid
      then Engine (ConsumerClose (consumer_id (consumer d))) # consumers_closing sid xs
      else consumers_closing sid xs)"
  by (simp_all add: consumers_closing_def)

lemma owned_producers_simps:
  "owned_producers sid [] = []"
  "owned_producers sid ((k, d) # xs) =
     (if p_socketId d = sid then k # owned_producers sid xs else owned_producers sid xs)"
  by (simp_all add: owned_producers_def)

lemma inbox_transport_closing: "inbox q (transport_closing found) = []"
  by (cases found) (simp_all add: transport_closing_def)

lemma inbox_consumers_closing: "inbox q (consumers_closing sid xs) = []"
proof (induction xs)
  case Nil
  show ?case by (simp add: consumers_closing_simps)
next
  case (Cons x xs)
  then show ?case by (cases x) (simp add: consumers_closing_simps)
qed

lemma inbox_producers_closing:
  "inbox q (producers_closing sid xs) =
     (if q = sid then [] else map ProducerClosed (owned_producers sid xs))"
proof (induction xs)
  case Nil
  show ?case by (simp add: producers_closing_simps owned_producers_simps)
next
  case (Cons x xs)
  then show ?case by (cases x) (auto simp: producers_closing_simps owned_producers_simps)
qed

lemma count_list_ProducerClosed:
  "count_list (map ProducerClosed ks) (ProducerClosed k) = count_list ks k"
  by (induction ks) auto

lemma count_list_distinct:
  "distinct ks \<Longrightarrow> count_list ks k = (if k \<in> set ks then 1 else 0)"
  by (induction ks) auto

lemma distinct_owned_producers:
  "distinct (map fst ps) \<Longrightarrow> distinct (owned_producers sid ps)"
  by (simp add: owned_producers_def distinct_map_filter)

lemma owned_producers_iff:
  assumes "distinct (map fst ps)" and "e \<in> set ps"
  shows "fst e \<in> set (owned_producers sid ps) \<longleftrightarrow> p_socketId (snd e) = sid"
proof
  assume "fst e \<in> set (owned_producers sid ps)"
  then obtain e' where e': "e' \<in> set ps" "p_socketId (snd e') = sid" "fst e' = fst e"
    unfolding owned_producers_def by auto
  have "snd e' = snd e"
    using assms(1) e'(1) assms(2) e'(3)
    by (metis eq_key_imp_eq_value prod.collapse)
  then show "p_socketId (snd e) = sid"
    using e'(2) by simp
next
  assume "p_socketId (snd e) = sid"
  then have "e \<in> set (filter (\<lambda>e. p_socketId (snd e) = sid) ps)"
    using assms(2) by simp
  then show "fst e \<in> set (owned_producers sid ps)"
    unfolding owned_producers_def set_map by (rule imageI)
qed

lemma owned_consumers_iff:
  assumes "distinct (map fst cs)" and "e \<in> set cs"
  shows "fst e \<in> set (owned_consumers sid cs) \<longleftrightarrow> c_socketId (snd e) = sid"
proof
  assume "fst e \<in> set (owned_consumers sid cs)"
  then obtain e' where e': "e' \<in> set cs" "c_socketId (snd e') = sid" "fst e' = fst e"
    unfolding owned_consumers_def by auto
  have "snd e' = snd e"
    using assms(1) e'(1) assms(2) e'(3)
    by (metis eq_key_imp_eq_value prod.collapse)
  then show "c_socketId (snd e) = sid"
    using e'(2) by simp
next
  assume "c_socketId (snd e) = sid"
  then have "e \<in> set (filter (\<lambda>e. c_socketId (snd e) = sid) cs)"
    using assms(2) by simp
  then show "fst e \<in> set (owned_consumers sid cs)"
    unfolding owned_consumers_def set_map by (rule imageI)
qed

lemma ConsumerClose_in_consumers_closing:
  "Engine (ConsumerClose c) \<in> set (consumers_closing sid cs) \<longleftrightarrow>
   (\<exists>e \<in> set cs. c_socketId (snd e) = sid \<and> consumer_id (consumer (snd e)) = c)"
proof (induction cs)
  case Nil
  show ?case by (simp add: consumers_closing_simps)
next
  case (Cons x cs)
  then show ?case by (cases x) (auto simp: consumers_closing_simps)
qed

lemma ConsumerClose_notin_transport_closing:
  "Engine (ConsumerClose c) \<notin> set (transport_closing found)"
  by (cases found) (simp_all add: transport_closing_def)

lemma ConsumerClose_notin_producers_closing:
  "Engine (ConsumerClose c) \<notin> set (producers_closing sid ps)"
proof (induction ps)
  case Nil
  show ?case by (simp add: producers_closing_simps)
next
  case (Cons x ps)
  then show ?case by (cases x) (simp add: producers_closing_simps)
qed

section \<open>Invariants of runs\<close>

lemmas handler_defs =
  getRouterRtpCapabilities_def createProducerTransport_def createConsumerTransport_def
  connectProducerTransport_def connectConsumerTransport_def produce_def produce_commit_def
  consume_def resumeConsumer_def getProducers_def setRtpCapabilities_def transportOptions_def

lemma handle_maps_distinct: "maps_distinct s \<Longrightarrow> maps_distinct (handle r s)"
proof -
  assume inv: "maps_distinct s"
  obtain sid req where r: "r = (sid, req)" by (cases r)
  show ?thesis
    using inv unfolding r maps_distinct_def
    by (cases req)
       (auto simp: handler_defs stmt_defs disconnect_eq Let_def AList.distinct_update
          AList.distinct_delete distinct_map_filter split: option.splits sum.splits)
qed

lemma run_maps_distinct: "maps_distinct s \<Longrightarrow> maps_distinct (run reqs s)"
  by (induction reqs arbitrary: s) (simp_all add: run_def handle_maps_distinct)

lemma reachable_maps_distinct: "maps_distinct (run reqs init)"
  by (rule run_maps_distinct) (simp add: maps_distinct_def init_def)

lemma distinct_keys_at_most_one:
  "distinct (map fst al) \<Longrightarrow> length (filter (\<lambda>e. fst e = k) al) \<le> 1"
  by (induction al) (auto simp: filter_empty_conv image_iff)

lemma set_update_subset: "set (AList.update k v al) \<subseteq> insert (k, v) (set al)"
  by (induction al) auto

lemma handle_keyed_by_id: "keyed_by_id s \<Longrightarrow> keyed_by_id (handle r s)"
proof -
  assume inv: "keyed_by_id s"
  obtain sid req where r: "r = (sid, req)" by (cases r)
  show ?thesis
  proof (cases req)
    case (Produce kind rtp res)
    have "keyed_by_id (producers_set (producer_id p) \<lparr>producer = p, p_socketId = sid\<rparr> s')"
      if "keyed_by_id s'" for p s'
      using that set_update_subset [of "producer_id p" "\<lparr>producer = p, p_socketId = sid\<rparr>" "producers s'"]
      by (auto simp: keyed_by_id_def list_all_iff producers_set_def)
    moreover have "keyed_by_id (emit e s') = keyed_by_id s'" for e s'
      by (simp add: keyed_by_id_def emit_def)
    ultimately show ?thesis
      using inv unfolding r Produce
      by (simp add: produce_def produce_commit_def exec_def callback_def broadcast_emit_def
          engine_def catch_error_def Let_def split: option.splits sum.splits)
  next
    case Disconnect
    show ?thesis
      using inv unfolding r Disconnect
      by (simp add: disconnect_eq keyed_by_id_def list_all_iff)
  qed (use inv in \<open>auto simp: r handler_defs stmt_defs keyed_by_id_def Let_def
         split: option.splits sum.splits\<close>)
qed

lemma run_keyed_by_id: "keyed_by_id s \<Longrightarrow> keyed_by_id (run reqs s)"
  by (induction reqs arbitrary: s) (simp_all add: run_def handle_keyed_by_id)

lemma producerList_keyed:
  "keyed_by_id s \<Longrightarrow>
   producerList sid s =
     map (\<lambda>(producerId, d). (producerId, p_socketId d))
       (filter (\<lambda>(producerId, d). p_socketId d \<noteq> sid) (producers s))"
proof -
  have "map (\<lambda>d. (producer_id (producer d), p_socketId d))
          (filter (\<lambda>d. p_socketId d \<noteq> sid) (map snd ps))
        = map (\<lambda>(producerId, d). (producerId, p_socketId d))
            (filter (\<lambda>(producerId, d). p_socketId d \<noteq> sid) ps)"
    if "\<forall>x \<in> set ps. producer_id (producer (snd x)) = fst x" for ps
    using that by (induction ps) auto
  then show "keyed_by_id s \<Longrightarrow> ?thesis"
    by (simp add: producerList_def keyed_by_id_def list_all_iff case_prod_beta)
qed

lemma handle_rtpCapabilities:
  "\<forall>c. r \<noteq> (sid, SetRtpCapabilities c) \<Longrightarrow>
   rtpCapabilities (handle r s) sid = rtpCapabilities s sid"
proof -
  assume other: "\<forall>c. r \<noteq> (sid, SetRtpCapabilities c)"
  obtain sid' req where r: "r = (sid', req)" by (cases r)
  show ?thesis
    using other unfolding r
    by (cases req)
       (auto simp: handler_defs stmt_defs disconnect_eq Let_def split: option.splits sum.splits)
qed

lemma run_rtpCapabilities:
  "\<forall>c. (sid, SetRtpCapabilities c) \<notin> set reqs \<Longrightarrow>
   rtpCapabilities (run reqs s) sid = rtpCapabilities s sid"
proof (induction reqs arbitrary: s)
  case Nil
  show ?case by (simp add: run_def)
next
  case (Cons r reqs)
  have "rtpCapabilities (run reqs (handle r s)) sid = rtpCapabilities (handle r s) sid"
    using Cons.prems by (intro Cons.IH) simp
  moreover have "rtpCapabilities (handle r s) sid = rtpCapabilities s sid"
    using Cons.prems by (intro handle_rtpCapabilities) auto
  ultimately show ?case by (simp add: run_def)
qed

lemma steps_produce_commit:
  "steps (produce_commit sid p) s =
     [s,
      producers_set (producer_id p) \<lparr>producer = p, p_socketId = sid\<rparr> s,
      broadcast_emit sid (NewProducer (producer_id p) sid)
        (producers_set (producer_id p) \<lparr>producer = p, p_socketId = sid\<rparr> s),
      exec (produce_commit sid p) s]"
  by (simp add: steps_def produce_commit_def exec_def)

lemma disconnect_cascade_distinct:
  assumes dp: "distinct (map fst (producers s))" and dc: "distinct (map fst (consumers s))"
    and P: "map_of (producers s) P = Some d" and own: "p_socketId d = sid" and q: "q \<noteq> sid"
  shows "map_of (producers (disconnect sid s)) P = None
     \<and> producers (disconnect sid s) = filter (\<lambda>e. p_socketId (snd e) \<noteq> sid) (producers s)
     \<and> count_list (inbox q (emitted s (disconnect sid s))) (ProducerClosed P) = 1
     \<and> inbox sid (emitted s (disconnect sid s)) = []
     \<and> consumers (disconnect sid s) = filter (\<lambda>e. c_socketId (snd e) \<noteq> sid) (consumers s)
     \<and> (\<forall>c. Engine (ConsumerClose c) \<in> set (emitted s (disconnect sid s)) \<longleftrightarrow>
            (\<exists>e \<in> set (consumers s). c_socketId (snd e) = sid \<and> consumer_id (consumer (snd e)) = c))"
proof -
  have mem: "(P, d) \<in> set (producers s)"
    using P by (rule map_of_SomeD)
  then have owned: "P \<in> set (owned_producers sid (producers s))"
    using own by (force simp: owned_producers_def)
  have ps: "producers (disconnect sid s) = filter (\<lambda>e. p_socketId (snd e) \<noteq> sid) (producers s)"
    unfolding disconnect_eq
    by (simp add: owned_producers_iff [OF dp] cong: filter_cong)
  have cs: "consumers (disconnect sid s) = filter (\<lambda>e. c_socketId (snd e) \<noteq> sid) (consumers s)"
    unfolding disconnect_eq
    by (simp add: owned_consumers_iff [OF dc] cong: filter_cong)
  have "P \<notin> fst ` set (filter (\<lambda>e. p_socketId (snd e) \<noteq> sid) (producers s))"
  proof
    assume "P \<in> fst ` set (filter (\<lambda>e. p_socketId (snd e) \<noteq> sid) (producers s))"
    then obtain d' where d': "(P, d') \<in> set (producers s)" and other: "p_socketId d' \<noteq> sid"
      by auto
    have "d' = d"
      using dp d' mem by (rule eq_key_imp_eq_value)
    then show False
      using own other by simp
  qed
  then have gone: "map_of (producers (disconnect sid s)) P = None"
    unfolding ps by (simp add: map_of_eq_None_iff)
  have em: "emitted s (disconnect sid s) =
      transport_closing (map_of (transports s) (producer_key sid))
      @ transport_closing (map_of (transports s) (consumer_key sid))
      @ producers_closing sid (producers s) @ consumers_closing sid (consumers s)"
    by (simp add: disconnect_eq emitted_def)
  have once: "count_list (inbox q (emitted s (disconnect sid s))) (ProducerClosed P) = 1"
    using q owned distinct_owned_producers [OF dp, of sid]
    by (simp add: em inbox_append inbox_producers_closing inbox_transport_closing
        inbox_consumers_closing count_list_ProducerClosed count_list_distinct)
  have self: "inbox sid (emitted s (disconnect sid s)) = []"
    by (simp add: em inbox_append inbox_producers_closing inbox_transport_closing
        inbox_consumers_closing)
  have closes: "\<forall>c. Engine (ConsumerClose c) \<in> set (emitted s (disconnect sid s)) \<longleftrightarrow>
            (\<exists>e \<in> set (consumers s). c_socketId (snd e) = sid \<and> consumer_id (consumer (snd e)) = c)"
    by (simp add: em ConsumerClose_in_consumers_closing ConsumerClose_notin_transport_closing
        ConsumerClose_notin_producers_closing)
  show ?thesis
    using gone ps once self cs closes by simp
qed

section \<open>The client releases what it consumed\<close>

lemma remoteStreams_filter_kept:
  "fst (remoteStreams_filter P sts c) = filter (\<lambda>st. rs_producerId st \<noteq> P) sts"
  by (induction sts arbitrary: c) (simp_all add: case_prod_beta)

lemma remoteStreams_filter_untouched:
  "consumedProducersRef (snd (remoteStreams_filter P sts c)) = consumedProducersRef c"
  "pendingProducers (snd (remoteStreams_filter P sts c)) = pendingProducers c"
  "remoteStreams (snd (remoteStreams_filter P sts c)) = remoteStreams c"
  by (induction sts arbitrary: c) (simp_all add: case_prod_beta split: option.splits)

lemma remoteStreams_filter_closed_mono:
  "set (closed c) \<subseteq> set (closed (snd (remoteStreams_filter P sts c)))"
proof (induction sts arbitrary: c)
  case Nil
  show ?case by simp
next
  case (Cons st sts)
  show ?case
  proof (cases "rs_producerId st = P")
    case False
    then show ?thesis
      using Cons.IH [of c] by (simp add: case_prod_beta)
  next
    case True
    show ?thesis
    proof (cases "map_of (consumersRef c) (rs_id st)")
      case None
      then show ?thesis using True Cons.IH [of c] by simp
    next
      case (Some found)
      let ?c1 = "c\<lparr>closed := closed c @ [consumer_id found],
                    consumersRef := AList.delete (rs_id st) (consumersRef c)\<rparr>"
      have "set (closed c) \<subseteq> set (closed ?c1)" by auto
      then show ?thesis
        using True Some Cons.IH [of ?c1] by auto
    qed
  qed
qed

lemma remoteStreams_filter_consumersRef:
  "consumersRef (snd (remoteStreams_filter P sts c)) =
     filter (\<lambda>e. fst e \<notin> rs_id ` {st \<in> set sts. rs_producerId st = P}) (consumersRef c)"
proof (induction sts arbitrary: c)
  case Nil
  show ?case by simp
next
  case (Cons st sts)
  show ?case
  proof (cases "rs_producerId st = P")
    case False
    then show ?thesis
      using Cons.IH [of c] by (auto simp: case_prod_beta intro: filter_cong)
  next
    case True
    let ?c1 = "case map_of (consumersRef c) (rs_id st) of None \<Rightarrow> c
               | Some found \<Rightarrow> c\<lparr>closed := closed c @ [consumer_id found],
                    consumersRef := AList.delete (rs_id st) (consumersRef c)\<rparr>"
    have c1: "consumersRef ?c1 = filter (\<lambda>e. fst e \<noteq> rs_id st) (consumersRef c)"
    proof (cases "map_of (consumersRef c) (rs_id st)")
      case None
      then have "rs_id st \<notin> fst ` set (consumersRef c)"
        by (simp add: map_of_eq_None_iff)
      then have "filter (\<lambda>e. fst e \<noteq> rs_id st) (consumersRef c) = consumersRef c"
        unfolding filter_id_conv by (metis imageI)
      then show ?thesis using None by simp
    next
      case (Some found)
      then show ?thesis by (simp add: delete_filter)
    qed
    have "consumersRef (snd (remoteStreams_filter P (st # sts) c))
        = consumersRef (snd (remoteStreams_filter P sts ?c1))"
      using True by simp
    also have "\<dots> = filter (\<lambda>e. fst e \<notin> rs_id ` {st \<in> set sts. rs_producerId st = P})
                       (consumersRef ?c1)"
      by (rule Cons.IH)
    also have "\<dots> = filter (\<lambda>e. fst e \<notin> rs_id ` {st' \<in> set (st # sts). rs_producerId st' = P})
                       (consumersRef c)"
      unfolding c1 using True by (auto intro: filter_cong)
    finally show ?thesis .
  qed
qed

lemma remoteStreams_filter_closes:
  "st \<in> set sts \<Longrightarrow> rs_producerId st = P \<Longrightarrow>
   map_of (consumersRef c) (rs_id st) = Some found \<Longrightarrow>
   consumer_id found \<in> set (closed (snd (remoteStreams_filter P sts c)))"
proof (induction sts arbitrary: c)
  case Nil
  then show ?case by simp
next
  case (Cons x sts)
  show ?case
  proof (cases "rs_producerId x = P")
    case False
    then have "st \<in> set sts" using Cons.prems by auto
    then show ?thesis
      using False Cons.IH [of c] Cons.prems by (simp add: case_prod_beta)
  next
    case True
    show ?thesis
    proof (cases "rs_id x = rs_id st")
      case same: True
      let ?c1 = "c\<lparr>closed := closed c @ [consumer_id found],
                    consumersRef := AList.delete (rs_id x) (consumersRef c)\<rparr>"
      have "consumer_id found \<in> set (closed ?c1)" by simp
      then have "consumer_id found \<in> set (closed (snd (remoteStreams_filter P sts ?c1)))"
        using remoteStreams_filter_closed_mono [of ?c1 P sts] by blast
      then show ?thesis
        using True same Cons.prems(3) by simp
    next
      case other: False
      then have mem: "st \<in> set sts" using Cons.prems(1) by auto
      let ?c1 = "case map_of (consumersRef c) (rs_id x) of None \<Rightarrow> c
               | Some f \<Rightarrow> c\<lparr>closed := closed c @ [consumer_id f],
                    consumersRef := AList.delete (rs_id x) (consumersRef c)\<rparr>"
      have "map_of (consumersRef ?c1) (rs_id st) = Some found"
        using other Cons.prems(3) by (simp split: option.splits)
      then have "consumer_id found \<in> set (closed (snd (remoteStreams_filter P sts ?c1)))"
        using mem Cons.prems(2) by (intro Cons.IH)
      then show ?thesis
        using True by simp
    qed
  qed
qed

lemma handleProducerClosed_releases:
  "remoteStreams (handleProducerClosed P c) = filter (\<lambda>st. rs_producerId st \<noteq> P) (remoteStreams c)
   \<and> consumersRef (handleProducerClosed P c) =
       filter (\<lambda>e. fst e \<notin> rs_id ` {st \<in> set (remoteStreams c). rs_producerId st = P})
         (consumersRef c)
   \<and> (\<forall>st \<in> set (remoteStreams c). \<forall>found.
         rs_producerId st = P \<and> map_of (consumersRef c) (rs_id st) = Some found
         \<longrightarrow> consumer_id found \<in> set (closed (handleProducerClosed P c)))
   \<and> P \<notin> set (consumedProducersRef (handleProducerClosed P c))
   \<and> P \<notin> fst ` set (pendingProducers (handleProducerClosed P c))"
proof -
  let ?c2 = "c\<lparr>consumedProducersRef := removeAll P (consumedProducersRef c),
               pendingProducers := filter (\<lambda>p. fst p \<noteq> P) (pendingProducers c)\<rparr>"
  let ?r = "remoteStreams_filter P (remoteStreams c) ?c2"
  have h: "handleProducerClosed P c = (snd ?r)\<lparr>remoteStreams := fst ?r\<rparr>"
    by (simp add: handleProducerClosed_def Let_def case_prod_beta)
  have closes: "consumer_id found \<in> set (closed (snd ?r))"
    if "st \<in> set (remoteStreams c)" "rs_producerId st = P"
       "map_of (consumersRef c) (rs_id st) = Some found" for st found
    using that remoteStreams_filter_closes [of st "remoteStreams c" P ?c2 found] by simp
  have pending: "P \<notin> fst ` set (filter (\<lambda>p. fst p \<noteq> P) (pendingProducers c))"
    by auto
  show ?thesis
    unfolding h
    using closes pending
    by (simp add: remoteStreams_filter_kept remoteStreams_filter_untouched
        remoteStreams_filter_consumersRef)
qed

section \<open>The example run, evaluated\<close>

lemma A_live_fields:
  "transports A_live = [(''A-producer'', tA)]"
  "producers A_live = [(''p1'', \<lparr>producer = p1, p_socketId = ''A''\<rparr>)]"
  "consumers A_live = []"
  "rtpCapabilities A_live = (\<lambda>_. None)"
  by (simp_all add: A_live_def A_produces_def run_def init_def handler_defs stmt_defs
      producer_key_def consumer_key_def tA_def p1_def)

lemma B_ready_fields:
  "transports B_ready = [(''A-producer'', tA), (''B-consumer'', tB)]"
  "producers B_ready = [(''p1'', \<lparr>producer = p1, p_socketId = ''A''\<rparr>)]"
  "consumers B_ready = []"
  "rtpCapabilities B_ready = (\<lambda>_. None)(''B'' := Some ''caps'')"
  by (simp_all add: B_ready_def A_produces_def B_joins_def run_def init_def
      handler_defs stmt_defs producer_key_def consumer_key_def tA_def tB_def p1_def)

lemma B_watching_fields:
  "transports B_watching = [(''A-producer'', tA), (''B-consumer'', tB)]"
  "producers B_watching = [(''p1'', \<lparr>producer = p1, p_socketId = ''A''\<rparr>)]"
  "consumers B_watching = [(''c1'', \<lparr>consumer = c1, c_socketId = ''B''\<rparr>)]"
  "rtpCapabilities B_watching = (\<lambda>_. None)(''B'' := Some ''caps'')"
  by (simp_all add: B_watching_def A_produces_def B_joins_def B_consumes_def run_def init_def
      handler_defs stmt_defs producer_key_def consumer_key_def tA_def tB_def p1_def c1_def)

section \<open>Claims\<close>

subsection \<open>C1: what the disconnect cascade removes\<close>

text \<open>
  C1, as stated, fails. In the example run \<open>B\<close> holds the consumer \<open>c1\<close> of \<open>A\<close>'s
  producer \<open>p1\<close>. When \<open>A\<close> disconnects, \<open>p1\<close> leaves the producer registry and
  \<open>producerClosed\<close> is broadcast, but \<open>c1\<close>, whose source is \<open>p1\<close>, is still in the
  consumer registry and no \<open>close\<close> was called on it: the handler only visits the
  consumers that the disconnecting socket owns.
\<close>

theorem orphaned_consumer_counterexample:
  "map_of (producers B_watching) ''p1'' = Some \<lparr>producer = p1, p_socketId = ''A''\<rparr>
   \<and> map_of (consumers B_watching) ''c1'' = Some \<lparr>consumer = c1, c_socketId = ''B''\<rparr>
   \<and> consumer_producerId c1 = ''p1''
   \<and> map_of (producers (disconnect ''A'' B_watching)) ''p1'' = None
   \<and> map_of (consumers (disconnect ''A'' B_watching)) ''c1''
       = Some \<lparr>consumer = c1, c_socketId = ''B''\<rparr>
   \<and> emitted B_watching (disconnect ''A'' B_watching)
       = [Engine (TransportClose ''tA''), Engine (ProducerClose ''p1''),
          BroadcastEmit ''A'' (ProducerClosed ''p1'')]"
  by (simp add: disconnect_def close_transport_def stmt_defs B_watching_fields emitted_def
      producer_key_def consumer_key_def p1_def c1_def tA_def)

text \<open>
  C1, amended. In every state the server can reach, when the owner \<open>sid\<close> of a producer
  \<open>P\<close> disconnects: \<open>P\<close> and every other producer of \<open>sid\<close> leave the producer
  registry; every other socket \<open>q\<close> receives exactly one \<open>producerClosed\<close> carrying
  \<open>P\<close>, and \<open>sid\<close> itself none; the consumers removed from the server's consumer
  registry are exactly those owned by \<open>sid\<close>, and the server calls \<open>close\<close> on exactly
  those. Consumers owned by other sockets stay there, whatever their source. They are
  released on the client: a client that handles \<open>producerClosed\<close> for \<open>P\<close> drops every
  remote stream of \<open>P\<close>, closes the consumer of each such stream and deletes it from its
  own map, and forgets \<open>P\<close> among the consumed and the pending producers.
\<close>

theorem disconnect_cascade:
  "(map_of (producers (run reqs init)) P = Some d \<and> p_socketId d = sid \<and> q \<noteq> sid \<longrightarrow>
     (let s = run reqs init in
        map_of (producers (disconnect sid s)) P = None
        \<and> producers (disconnect sid s) = filter (\<lambda>e. p_socketId (snd e) \<noteq> sid) (producers s)
        \<and> count_list (inbox q (emitted s (disconnect sid s))) (ProducerClosed P) = 1
        \<and> inbox sid (emitted s (disconnect sid s)) = []
        \<and> consumers (disconnect sid s) = filter (\<lambda>e. c_socketId (snd e) \<noteq> sid) (consumers s)
        \<and> (\<forall>c. Engine (ConsumerClose c) \<in> set (emitted s (disconnect sid s)) \<longleftrightarrow>
               (\<exists>e \<in> set (consumers s). c_socketId (snd e) = sid \<and> consumer_id (consumer (snd e)) = c))))
   \<and> remoteStreams (handleProducerClosed P cl) = filter (\<lambda>st. rs_producerId st \<noteq> P) (remoteStreams cl)
     \<and> consumersRef (handleProducerClosed P cl) =
         filter (\<lambda>e. fst e \<notin> rs_id ` {st \<in> set (remoteStreams cl). rs_producerId st = P})
           (consumersRef cl)
     \<and> (\<forall>st \<in> set (remoteStreams cl). \<forall>found.
           rs_producerId st = P \<and> map_of (consumersRef cl) (rs_id st) = Some found
           \<longrightarrow> consumer_id found \<in> set (closed (handleProducerClosed P cl)))
     \<and> P \<notin> set (consumedProducersRef (handleProducerClosed P cl))
     \<and> P \<notin> fst ` set (pendingProducers (handleProducerClosed P cl))"
proof -
  have server: "let s = run reqs init in
        map_of (producers (disconnect sid s)) P = None
        \<and> producers (disconnect sid s) = filter (\<lambda>e. p_socketId (snd e) \<noteq> sid) (producers s)
        \<and> count_list (inbox q (emitted s (disconnect sid s))) (ProducerClosed P) = 1
        \<and> inbox sid (emitted s (disconnect sid s)) = []
        \<and> consumers (disconnect sid s) = filter (\<lambda>e. c_socketId (snd e) \<noteq> sid) (consumers s)
        \<and> (\<forall>c. Engine (ConsumerClose c) \<in> set (emitted s (disconnect sid s)) \<longleftrightarrow>
               (\<exists>e \<in> set (consumers s). c_socketId (snd e) = sid \<and> consumer_id (consumer (snd e)) = c))"
    if P: "map_of (producers (run reqs init)) P = Some d"
      and own: "p_socketId d = sid" and q: "q \<noteq> sid"
  proof -
    have "maps_distinct (run reqs init)"
      by (rule reachable_maps_distinct)
    then have dp: "distinct (map fst (producers (run reqs init)))"
      and dc: "distinct (map fst (consumers (run reqs init)))"
      by (simp_all add: maps_distinct_def)
    show ?thesis
      unfolding Let_def by (rule disconnect_cascade_distinct [OF dp dc P own q])
  qed
  show ?thesis
    using server handleProducerClosed_releases [of P cl] by blast
qed

text \<open>
  C1, amended, at the example run: \<open>A\<close> disconnects while \<open>B\<close> consumes \<open>p1\<close>, and the
  client of \<open>B\<close> handles the \<open>producerClosed\<close> it receives.
\<close>

theorem disconnect_cascade_witness:
  "map_of (producers (run (A_produces @ B_joins @ B_consumes) init)) ''p1''
     = Some \<lparr>producer = p1, p_socketId = ''A''\<rparr>
   \<and> producers (disconnect ''A'' B_watching) = []
   \<and> count_list (inbox ''B'' (emitted B_watching (disconnect ''A'' B_watching)))
        (ProducerClosed ''p1'') = 1
   \<and> consumers (disconnect ''A'' B_watching) = [(''c1'', \<lparr>consumer = c1, c_socketId = ''B''\<rparr>)]
   \<and> Engine (ConsumerClose ''c1'') \<notin> set (emitted B_watching (disconnect ''A'' B_watching))
   \<and> remoteStreams (handleProducerClosed ''p1'' B_client) = []
   \<and> consumersRef (handleProducerClosed ''p1'' B_client) = []
   \<and> ''c1'' \<in> set (closed (handleProducerClosed ''p1'' B_client))"
proof -
  have P: "map_of (producers (run (A_produces @ B_joins @ B_consumes) init)) ''p1''
     = Some \<lparr>producer = p1, p_socketId = ''A''\<rparr>"
    using B_watching_fields(2) by (simp add: B_watching_def)
  have cl: "remoteStreams B_client
      = [\<lparr>rs_id = ''c1'', rs_stream = ''media'', rs_socketId = ''A'', rs_producerId = ''p1''\<rparr>]"
    "consumersRef B_client = [(''c1'', c1)]" "consumer_id c1 = ''c1''"
    by (simp_all add: B_client_def c1_def)
  show ?thesis
    using P disconnect_cascade [where reqs = "A_produces @ B_joins @ B_consumes"
          and P = "''p1''" and sid = "''A''"
          and d = "\<lparr>producer = p1, p_socketId = ''A''\<rparr>" and q = "''B''"
          and cl = B_client]
    unfolding B_watching_def [symmetric]
    by (auto simp: B_watching_fields Let_def cl)
qed

subsection \<open>C2: resuming a consumer\<close>

text \<open>
  C2, as stated, fails. In the example run the consumer \<open>c1\<close> is owned by \<open>B\<close>; a
  \<open>resumeConsumer\<close> for \<open>c1\<close> sent by \<open>A\<close> resumes it and answers \<open>{success: true}\<close>.
  The handler looks the consumer up by id and never compares its owner.
\<close>

theorem resumeConsumer_ignores_owner:
  "map_of (consumers B_watching) ''c1'' = Some \<lparr>consumer = c1, c_socketId = ''B''\<rparr>
   \<and> emitted B_watching (resumeConsumer ''A'' ''c1'' (Inr ()) B_watching)
       = [Engine (ConsumerResume ''c1''), Callback ''A'' Success]"
  by (simp add: B_watching_fields resumeConsumer_def stmt_defs c1_def)

text \<open>
  C2, amended. \<open>resumeConsumer\<close> answers exactly once and changes no registry. The
  answer is the \<open>Consumer not found\<close> error exactly when the id is not in the consumer
  registry; when it is there, whoever owns it, the answer is \<open>{success: true}\<close> unless
  the engine's \<open>resume\<close> throws, whose message is then the error.
\<close>

theorem resumeConsumer_response:
  "callbacks (emitted s (resumeConsumer sid consumerId res s)) =
     [case map_of (consumers s) consumerId of
        None \<Rightarrow> ErrorResponse (message ConsumerNotFound)
      | Some consumerData \<Rightarrow>
          (case res of Inl m \<Rightarrow> ErrorResponse m | Inr _ \<Rightarrow> Success)]
   \<and> registries (resumeConsumer sid consumerId res s) = registries s"
  by (simp add: resumeConsumer_def stmt_defs registries_def split: option.splits sum.splits)

subsection \<open>C3: capability gating of consume\<close>

text \<open>
  C3, as stated, fails. The run \<open>A_produces\<close> holds requests of \<open>A\<close> only: after it
  \<open>B\<close> has sent no \<open>setRtpCapabilities\<close> and has no receive transport. Its \<open>consume\<close>
  of the existing producer \<open>p1\<close> fails, but with the transport error, not with the
  capabilities error.
\<close>

theorem consume_before_capabilities_counterexample:
  "rtpCapabilities (run A_produces init) ''B'' = None
   \<and> map_of (producers (run A_produces init)) ''p1''
       = Some \<lparr>producer = p1, p_socketId = ''A''\<rparr>
   \<and> callbacks (emitted (run A_produces init)
         (consume ''B'' ''p1'' True (Inr c1) (run A_produces init)))
       = [ErrorResponse ''Consumer transport not found'']
   \<and> ''Consumer transport not found'' \<noteq> message CapabilitiesUnset"
  using A_live_fields
  by (simp add: A_live_def consume_def stmt_defs consumer_key_def)

text \<open>
  C3, amended. After any run in which \<open>sid\<close> has sent no \<open>setRtpCapabilities\<close>, a
  \<open>consume\<close> of \<open>sid\<close> always fails with an error response and stores nothing, and the
  error is \<open>RTP capabilities not set\<close> when \<open>sid\<close> has a receive transport and the
  producer exists. When capabilities are set and \<open>router.canConsume\<close> answers false, a socket
  with a receive transport asking for an existing producer gets the incompatibility error
  and nothing is stored.
\<close>

theorem consume_capability_gating:
  "((\<forall>c. (sid, SetRtpCapabilities c) \<notin> set reqs) \<longrightarrow>
      (let s = run reqs init in
         (\<exists>e. callbacks (emitted s (consume sid pid can res s)) = [ErrorResponse e])
         \<and> registries (consume sid pid can res s) = registries s
         \<and> (map_of (transports s) (consumer_key sid) \<noteq> None \<and> map_of (producers s) pid \<noteq> None
              \<longrightarrow> callbacks (emitted s (consume sid pid can res s))
                    = [ErrorResponse (message CapabilitiesUnset)])))
   \<and> (map_of (transports s') (consumer_key sid) \<noteq> None \<and> map_of (producers s') pid \<noteq> None
        \<and> rtpCapabilities s' sid = Some caps \<and> \<not> can
        \<longrightarrow> callbacks (emitted s' (consume sid pid can res s'))
              = [ErrorResponse (message IncompatibleCapabilities)]
            \<and> registries (consume sid pid can res s') = registries s')"
proof -
  have unset: "rtpCapabilities (run reqs init) sid = None"
    if "\<forall>c. (sid, SetRtpCapabilities c) \<notin> set reqs"
    using run_rtpCapabilities [OF that, of init] by (simp add: init_def)
  have unset_fails: "(\<exists>e. callbacks (emitted s (consume sid pid can res s)) = [ErrorResponse e])
         \<and> registries (consume sid pid can res s) = registries s
         \<and> (map_of (transports s) (consumer_key sid) \<noteq> None \<and> map_of (producers s) pid \<noteq> None
              \<longrightarrow> callbacks (emitted s (consume sid pid can res s))
                    = [ErrorResponse (message CapabilitiesUnset)])"
    if "rtpCapabilities s sid = None" for s
    using that by (auto simp: consume_def stmt_defs emitted_def registries_def split: option.splits)
  have incompatible: "callbacks (emitted s' (consume sid pid can res s'))
              = [ErrorResponse (message IncompatibleCapabilities)]
            \<and> registries (consume sid pid can res s') = registries s'"
    if "map_of (transports s') (consumer_key sid) \<noteq> None" "map_of (producers s') pid \<noteq> None"
       "rtpCapabilities s' sid = Some caps" "\<not> can"
    using that by (auto simp: consume_def stmt_defs emitted_def registries_def)
  show ?thesis
    using unset unset_fails incompatible by (simp add: Let_def)
qed

text \<open>
  C3, amended, at the example run: \<open>B\<close> with a receive transport and no capabilities, and
  \<open>B\<close> with capabilities the router refuses.
\<close>

theorem consume_capability_gating_witness:
  "(\<forall>c. (''B'', SetRtpCapabilities c) \<notin> set (A_produces @ [(''B'', CreateConsumerTransport (Inr tB))]))
   \<and> callbacks (emitted (run (A_produces @ [(''B'', CreateConsumerTransport (Inr tB))]) init)
        (consume ''B'' ''p1'' True (Inr c1)
           (run (A_produces @ [(''B'', CreateConsumerTransport (Inr tB))]) init)))
       = [ErrorResponse ''RTP capabilities not set'']
   \<and> callbacks (emitted B_ready (consume ''B'' ''p1'' False (Inr c1) B_ready))
       = [ErrorResponse ''Cannot consume - incompatible RTP capabilities'']"
proof -
  let ?reqs = "A_produces @ [(''B'', CreateConsumerTransport (Inr tB))]"
  have no_set: "\<forall>c. (''B'', SetRtpCapabilities c) \<notin> set ?reqs"
    by (simp add: A_produces_def)
  have t: "transports (run ?reqs init) = [(''A-producer'', tA), (''B-consumer'', tB)]"
    and p: "producers (run ?reqs init) = [(''p1'', \<lparr>producer = p1, p_socketId = ''A''\<rparr>)]"
    by (simp_all add: A_produces_def run_def init_def handler_defs stmt_defs
        producer_key_def consumer_key_def p1_def)
  show ?thesis
    using no_set
      consume_capability_gating [where sid = "''B''" and reqs = ?reqs and pid = "''p1''"
        and can = True and res = "Inr c1" and s' = init and caps = "''caps''"]
      consume_capability_gating [where sid = "''B''" and reqs = "[]" and pid = "''p1''"
        and can = False and res = "Inr c1" and s' = B_ready and caps = "''caps''"]
    by (simp add: t p B_ready_fields consumer_key_def Let_def)
qed

subsection \<open>C4: a failed creation is never stored\<close>

text \<open>
  C4. When the engine call of \<open>createProducerTransport\<close>, \<open>createConsumerTransport\<close>,
  \<open>produce\<close> or \<open>consume\<close> throws, the three registries are what they were before the
  request and the one response is an \<open>{error}\<close>: the engine's message, or the message of
  the check that failed before the engine was reached.
\<close>

theorem engine_failure_stores_nothing:
  "registries (createProducerTransport sid (Inl m) s) = registries s
   \<and> callbacks (emitted s (createProducerTransport sid (Inl m) s)) = [ErrorResponse m]
   \<and> registries (createConsumerTransport sid (Inl m) s) = registries s
   \<and> callbacks (emitted s (createConsumerTransport sid (Inl m) s)) = [ErrorResponse m]
   \<and> registries (produce sid kind rtp (Inl m) s) = registries s
   \<and> callbacks (emitted s (produce sid kind rtp (Inl m) s))
       = [ErrorResponse (if map_of (transports s) (producer_key sid) = None
                         then message ProducerTransportNotFound else m)]
   \<and> registries (consume sid pid can (Inl m) s) = registries s
   \<and> (\<exists>e. callbacks (emitted s (consume sid pid can (Inl m) s)) = [ErrorResponse e])
   \<and> (map_of (transports s) (consumer_key sid) \<noteq> None \<and> map_of (producers s) pid \<noteq> None
        \<and> rtpCapabilities s sid \<noteq> None \<and> can
        \<longrightarrow> callbacks (emitted s (consume sid pid can (Inl m) s)) = [ErrorResponse m])"
proof -
  have create: "registries (createProducerTransport sid (Inl m) s) = registries s
     \<and> callbacks (emitted s (createProducerTransport sid (Inl m) s)) = [ErrorResponse m]
     \<and> registries (createConsumerTransport sid (Inl m) s) = registries s
     \<and> callbacks (emitted s (createConsumerTransport sid (Inl m) s)) = [ErrorResponse m]"
    by (simp add: createProducerTransport_def createConsumerTransport_def stmt_defs
        registries_def emitted_def)
  have prod: "registries (produce sid kind rtp (Inl m) s) = registries s
     \<and> callbacks (emitted s (produce sid kind rtp (Inl m) s))
       = [ErrorResponse (if map_of (transports s) (producer_key sid) = None
                         then message ProducerTransportNotFound else m)]"
    by (simp add: produce_def stmt_defs registries_def emitted_def split: option.splits)
  have cons: "registries (consume sid pid can (Inl m) s) = registries s
     \<and> (\<exists>e. callbacks (emitted s (consume sid pid can (Inl m) s)) = [ErrorResponse e])"
    by (auto simp: consume_def stmt_defs registries_def emitted_def Let_def
        split: option.splits)
  have cons_engine: "callbacks (emitted s (consume sid pid can (Inl m) s)) = [ErrorResponse m]"
    if "map_of (transports s) (consumer_key sid) \<noteq> None" "map_of (producers s) pid \<noteq> None"
       "rtpCapabilities s sid \<noteq> None" can
    using that by (auto simp: consume_def stmt_defs emitted_def)
  show ?thesis
    using create prod cons cons_engine by simp
qed

text \<open>
  C4 at the example run: the engine rejects \<open>B\<close>'s \<open>consume\<close> and \<open>A\<close>'s \<open>produce\<close>.
\<close>

theorem engine_failure_stores_nothing_witness:
  "registries (consume ''B'' ''p1'' True (Inl ''consume failed'') B_ready) = registries B_ready
   \<and> callbacks (emitted B_ready (consume ''B'' ''p1'' True (Inl ''consume failed'') B_ready))
       = [ErrorResponse ''consume failed'']
   \<and> registries (produce ''A'' ''video'' ''rtp'' (Inl ''produce failed'') B_ready) = registries B_ready
   \<and> callbacks (emitted B_ready (produce ''A'' ''video'' ''rtp'' (Inl ''produce failed'') B_ready))
       = [ErrorResponse ''produce failed'']"
  using engine_failure_stores_nothing
          [where sid = "''B''" and m = "''consume failed''" and s = B_ready
            and pid = "''p1''" and can = True]
        engine_failure_stores_nothing
          [where sid = "''A''" and m = "''produce failed''" and s = B_ready
            and kind = "''video''" and rtp = "''rtp''"]
  by (simp add: B_ready_fields consumer_key_def producer_key_def)

subsection \<open>C5: idempotent teardown\<close>

text \<open>
  C5. Idempotent teardown: running the disconnect cascade for a socket a second time
  changes nothing. The state after the second run, with its trace of engine calls,
  callbacks and broadcasts, is the state after the first: no registry changes, nothing is
  closed again and no \<open>producerClosed\<close> is broadcast again. The handler has no failing
  branch.
\<close>

theorem disconnect_idempotent:
  "disconnect sid (disconnect sid s) = disconnect sid s"
proof -
  let ?ts = "AList.delete (consumer_key sid) (AList.delete (producer_key sid) (transports s))"
  let ?ps = "filter (\<lambda>e. fst e \<notin> set (owned_producers sid (producers s))) (producers s)"
  let ?cs = "filter (\<lambda>e. fst e \<notin> set (owned_consumers sid (consumers s))) (consumers s)"
  obtain s' where s': "s' = disconnect sid s" by simp
  have ts: "transports s' = ?ts" and ps: "producers s' = ?ps" and cs: "consumers s' = ?cs"
    unfolding s' by (simp_all add: disconnect_eq)
  have t2: "AList.delete (consumer_key sid) (AList.delete (producer_key sid) ?ts) = ?ts"
    by (auto simp: delete_filter intro: filter_cong)
  have "disconnect sid s' = s'"
    by (subst disconnect_eq)
       (simp add: ts ps cs t2 transports_after_disconnect transport_closing_def
          owned_producers_after owned_consumers_after producers_closing_none
          consumers_closing_none)
  then show ?thesis by (simp add: s')
qed

subsection \<open>C6: broadcast after commit\<close>

text \<open>
  C6. In a successful \<open>produce\<close> the statements after the engine call run in the order
  store, broadcast, answer. In every state this sequence passes through, each producer
  id announced so far by this request is a key of the producer registry, and at the end
  exactly the new id has been announced and is stored for the producing socket. When the
  engine call throws, or the send transport is missing, nothing is announced and the
  producer registry is unchanged.
\<close>

theorem broadcast_after_commit:
  "(map_of (transports s) (producer_key sid) = Some t \<longrightarrow>
      (let s1 = engine (TransportProduce (transport_id t) kind rtp) s in
         last (steps (produce_commit sid p) s1) = produce sid kind rtp (Inr p) s
         \<and> (\<forall>w \<in> set (steps (produce_commit sid p) s1).
               set (announced (emitted s w)) \<subseteq> fst ` set (producers w))
         \<and> announced (emitted s (produce sid kind rtp (Inr p) s)) = [producer_id p]
         \<and> map_of (producers (produce sid kind rtp (Inr p) s)) (producer_id p)
             = Some \<lparr>producer = p, p_socketId = sid\<rparr>))
   \<and> announced (emitted s (produce sid kind rtp (Inl m) s)) = []
   \<and> producers (produce sid kind rtp (Inl m) s) = producers s
   \<and> (map_of (transports s) (producer_key sid) = None \<longrightarrow>
        announced (emitted s (produce sid kind rtp res s)) = []
        \<and> producers (produce sid kind rtp res s) = producers s)"
proof -
  have ok: "(let s1 = engine (TransportProduce (transport_id t) kind rtp) s in
         last (steps (produce_commit sid p) s1) = produce sid kind rtp (Inr p) s
         \<and> (\<forall>w \<in> set (steps (produce_commit sid p) s1).
               set (announced (emitted s w)) \<subseteq> fst ` set (producers w))
         \<and> announced (emitted s (produce sid kind rtp (Inr p) s)) = [producer_id p]
         \<and> map_of (producers (produce sid kind rtp (Inr p) s)) (producer_id p)
             = Some \<lparr>producer = p, p_socketId = sid\<rparr>)"
    if "map_of (transports s) (producer_key sid) = Some t"
    using that
    by (simp add: steps_produce_commit Let_def produce_def)
       (simp add: produce_commit_def stmt_defs emitted_def AList.dom_update AList.update_conv')
  have failed: "announced (emitted s (produce sid kind rtp (Inl m) s)) = []
      \<and> producers (produce sid kind rtp (Inl m) s) = producers s"
    by (simp add: produce_def stmt_defs emitted_def split: option.splits)
  have missing: "announced (emitted s (produce sid kind rtp res s)) = []
        \<and> producers (produce sid kind rtp res s) = producers s"
    if "map_of (transports s) (producer_key sid) = None"
    using that by (simp add: produce_def stmt_defs emitted_def)
  show ?thesis
    using ok failed missing by simp
qed

text \<open>
  C6 at the example run: \<open>A\<close> produces a second track \<open>p2\<close>; \<open>B\<close>, which has no
  send transport, tries to produce.
\<close>

theorem broadcast_after_commit_witness:
  "last (steps (produce_commit ''A'' \<lparr>producer_id = ''p2'', producer_kind = ''audio''\<rparr>)
              (engine (TransportProduce ''tA'' ''audio'' ''rtp'') B_ready))
     = produce ''A'' ''audio'' ''rtp'' (Inr \<lparr>producer_id = ''p2'', producer_kind = ''audio''\<rparr>) B_ready
   \<and> announced (emitted B_ready
        (produce ''A'' ''audio'' ''rtp'' (Inr \<lparr>producer_id = ''p2'', producer_kind = ''audio''\<rparr>) B_ready))
       = [''p2'']
   \<and> announced (emitted B_ready (produce ''B'' ''audio'' ''rtp'' (Inr p1) B_ready)) = []"
  using broadcast_after_commit [where s = B_ready and sid = "''A''" and t = tA
          and kind = "''audio''" and rtp = "''rtp''"
          and p = "\<lparr>producer_id = ''p2'', producer_kind = ''audio''\<rparr>"]
        broadcast_after_commit [where s = B_ready and sid = "''B''"
          and kind = "''audio''" and rtp = "''rtp''" and res = "Inr p1"]
  by (simp add: B_ready_fields producer_key_def Let_def tA_def)

subsection \<open>C7: exclusion of the requesting socket\<close>

text \<open>
  C7. In a reachable state the \<open>getProducers\<close> response lists, in registry order, the
  (producer id, owner) pair of every entry whose owner is not the requesting socket. In
  any state no pair of the response has the requester as owner, the pairs are exactly
  those of the entries owned by others, and the response is the one effect of the
  request. The \<open>newProducer\<close> of a successful \<open>produce\<close> reaches every socket but the
  producing one.
\<close>

theorem exclusion_correctness:
  "producerList sid (run reqs init) =
     map (\<lambda>(producerId, d). (producerId, p_socketId d))
       (filter (\<lambda>(producerId, d). p_socketId d \<noteq> sid) (producers (run reqs init)))
   \<and> (\<forall>e \<in> set (producerList sid s). snd e \<noteq> sid)
   \<and> set (producerList sid s) =
       (\<lambda>d. (producer_id (producer d), p_socketId d))
         ` {d \<in> snd ` set (producers s). p_socketId d \<noteq> sid}
   \<and> emitted s (getProducers sid s) = [Callback sid (ProducerList (producerList sid s))]
   \<and> (map_of (transports s) (producer_key sid) \<noteq> None \<longrightarrow>
        inbox q (emitted s (produce sid kind rtp (Inr p) s))
          = (if q = sid then [] else [NewProducer (producer_id p) sid]))"
proof -
  have "keyed_by_id init"
    by (simp add: keyed_by_id_def init_def)
  then have reach: "keyed_by_id (run reqs init)"
    by (rule run_keyed_by_id)
  have others: "\<forall>e \<in> set (producerList sid s). snd e \<noteq> sid"
    by (auto simp: producerList_def)
  have exact: "set (producerList sid s) =
       (\<lambda>d. (producer_id (producer d), p_socketId d))
         ` {d \<in> snd ` set (producers s). p_socketId d \<noteq> sid}"
    by (auto simp: producerList_def)
  have reply: "emitted s (getProducers sid s) = [Callback sid (ProducerList (producerList sid s))]"
    by (simp add: getProducers_def stmt_defs emitted_def)
  have bcast: "inbox q (emitted s (produce sid kind rtp (Inr p) s))
          = (if q = sid then [] else [NewProducer (producer_id p) sid])"
    if "map_of (transports s) (producer_key sid) \<noteq> None"
    using that by (auto simp: produce_def produce_commit_def stmt_defs emitted_def)
  show ?thesis
    using producerList_keyed [OF reach] others exact reply bcast by simp
qed

text \<open>
  C7 at the example run: what \<open>B\<close> and \<open>A\<close> get from \<open>getProducers\<close>, and who
  receives \<open>newProducer\<close> when \<open>A\<close> produces \<open>p2\<close>.
\<close>

theorem exclusion_correctness_witness:
  "producerList ''B'' (run (A_produces @ B_joins) init) = [(''p1'', ''A'')]
   \<and> producerList ''A'' B_ready = []
   \<and> inbox ''B'' (emitted B_ready (produce ''A'' ''audio'' ''rtp''
        (Inr \<lparr>producer_id = ''p2'', producer_kind = ''audio''\<rparr>) B_ready))
       = [NewProducer ''p2'' ''A'']
   \<and> inbox ''A'' (emitted B_ready (produce ''A'' ''audio'' ''rtp''
        (Inr \<lparr>producer_id = ''p2'', producer_kind = ''audio''\<rparr>) B_ready))
       = []"
proof -
  have A: "map_of (transports B_ready) (producer_key ''A'') \<noteq> None"
    by (simp add: B_ready_fields producer_key_def)
  have l: "producers (run (A_produces @ B_joins) init)
      = [(''p1'', \<lparr>producer = p1, p_socketId = ''A''\<rparr>)]"
    using B_ready_fields(2) by (simp add: B_ready_def)
  have "producerList ''A'' B_ready = []"
    by (simp add: producerList_def B_ready_fields)
  then show ?thesis
    using A
      exclusion_correctness [where sid = "''B''" and reqs = "A_produces @ B_joins" and s = B_ready]
      exclusion_correctness [where sid = "''A''" and s = B_ready and q = "''B''"]
      exclusion_correctness [where sid = "''A''" and s = B_ready and q = "''A''"]
    by (simp add: l)
qed

subsection \<open>C8: connecting a transport that was never created\<close>

text \<open>
  C8. \<open>connectProducerTransport\<close> (and \<open>connectConsumerTransport\<close>) of a socket with no
  send (receive) transport recorded only answers the transport-not-found error.
  Otherwise it calls \<open>connect\<close> on the stored transport with the \<open>dtlsParameters\<close> of the
  request and answers \<open>{success: true}\<close>, or the engine's message as an error when
  \<open>connect\<close> throws. No registry changes in either case.
\<close>

theorem connect_transport_checked:
  "(map_of (transports s) (producer_key sid) = None \<longrightarrow>
      connectProducerTransport sid dtls res s
        = s\<lparr>trace := trace s
              @ [Callback sid (ErrorResponse (message ProducerTransportNotFound))]\<rparr>)
   \<and> (map_of (transports s) (consumer_key sid) = None \<longrightarrow>
      connectConsumerTransport sid dtls res s
        = s\<lparr>trace := trace s
              @ [Callback sid (ErrorResponse (message ConsumerTransportNotFound))]\<rparr>)
   \<and> (map_of (transports s) (producer_key sid) = Some t \<longrightarrow>
      connectProducerTransport sid dtls res s
        = s\<lparr>trace := trace s
              @ [Engine (TransportConnect (transport_id t) dtls),
                 Callback sid (case res of Inl m \<Rightarrow> ErrorResponse m | Inr _ \<Rightarrow> Success)]\<rparr>)
   \<and> (map_of (transports s) (consumer_key sid) = Some t \<longrightarrow>
      connectConsumerTransport sid dtls res s
        = s\<lparr>trace := trace s
              @ [Engine (TransportConnect (transport_id t) dtls),
                 Callback sid (case res of Inl m \<Rightarrow> ErrorResponse m | Inr _ \<Rightarrow> Success)]\<rparr>)"
  by (simp add: connectProducerTransport_def connectConsumerTransport_def stmt_defs
      split: sum.splits)

text \<open>
  C8 at concrete inputs: a socket that never created a transport, and the two sockets of
  the example run.
\<close>

theorem connect_transport_checked_witness:
  "emitted init (connectProducerTransport ''A'' ''dtls'' (Inr ()) init)
     = [Callback ''A'' (ErrorResponse ''Producer transport not found'')]
   \<and> emitted init (connectConsumerTransport ''A'' ''dtls'' (Inr ()) init)
     = [Callback ''A'' (ErrorResponse ''Consumer transport not found'')]
   \<and> emitted B_ready (connectProducerTransport ''A'' ''dtls'' (Inl ''bad dtls'') B_ready)
     = [Engine (TransportConnect ''tA'' ''dtls''), Callback ''A'' (ErrorResponse ''bad dtls'')]
   \<and> emitted B_ready (connectConsumerTransport ''B'' ''dtls'' (Inr ()) B_ready)
     = [Engine (TransportConnect ''tB'' ''dtls''), Callback ''B'' Success]"
  using connect_transport_checked [where s = init and sid = "''A''" and dtls = "''dtls''"
          and res = "Inr ()"]
        connect_transport_checked [where s = B_ready and sid = "''A''" and t = tA
          and dtls = "''dtls''" and res = "Inl ''bad dtls''"]
        connect_transport_checked [where s = B_ready and sid = "''B''" and t = tB
          and dtls = "''dtls''" and res = "Inr ()"]
  by (simp add: B_ready_fields init_def producer_key_def consumer_key_def tA_def tB_def)

subsection \<open>C9: one transport per socket and direction\<close>

text \<open>
  C9. After any sequence of requests from the initial state, \<open>transports\<close> has at most
  one entry under the send key and at most one under the receive key of each socket. A
  successful \<open>createProducerTransport\<close> (\<open>createConsumerTransport\<close>) makes the new
  transport the entry of its key and leaves every other key alone; when the key was
  present the keys of the registry are unchanged, so the entry was replaced. Its only
  effects are the engine's creation call and the response: no \<open>close\<close> is called on
  the transport that was replaced.
\<close>

theorem transport_uniqueness:
  "length (filter (\<lambda>e. fst e = producer_key sid) (transports (run reqs init))) \<le> 1
   \<and> length (filter (\<lambda>e. fst e = consumer_key sid) (transports (run reqs init))) \<le> 1
   \<and> (let s' = createProducerTransport sid (Inr t) s in
        map_of (transports s') (producer_key sid) = Some t
        \<and> (\<forall>k. k \<noteq> producer_key sid \<longrightarrow> map_of (transports s') k = map_of (transports s) k)
        \<and> (map_of (transports s) (producer_key sid) \<noteq> None \<longrightarrow>
             map fst (transports s') = map fst (transports s))
        \<and> emitted s s' = [Engine CreateWebRtcTransport, Callback sid (transportOptions t)])
   \<and> (let s' = createConsumerTransport sid (Inr t) s in
        map_of (transports s') (consumer_key sid) = Some t
        \<and> (\<forall>k. k \<noteq> consumer_key sid \<longrightarrow> map_of (transports s') k = map_of (transports s) k)
        \<and> (map_of (transports s) (consumer_key sid) \<noteq> None \<longrightarrow>
             map fst (transports s') = map fst (transports s))
        \<and> emitted s s' = [Engine CreateWebRtcTransport, Callback sid (transportOptions t)])"
proof -
  have "distinct (map fst (transports (run reqs init)))"
    using reachable_maps_distinct [of reqs] by (simp add: maps_distinct_def)
  then have one: "length (filter (\<lambda>e. fst e = k) (transports (run reqs init))) \<le> 1" for k
    by (rule distinct_keys_at_most_one)
  have present: "k \<in> fst ` set al" if "map_of al k \<noteq> None" for k and al :: "(string \<times> transport) list"
    using that by (simp add: map_of_eq_None_iff)
  have send: "(let s' = createProducerTransport sid (Inr t) s in
        map_of (transports s') (producer_key sid) = Some t
        \<and> (\<forall>k. k \<noteq> producer_key sid \<longrightarrow> map_of (transports s') k = map_of (transports s) k)
        \<and> (map_of (transports s) (producer_key sid) \<noteq> None \<longrightarrow>
             map fst (transports s') = map fst (transports s))
        \<and> emitted s s' = [Engine CreateWebRtcTransport, Callback sid (transportOptions t)])"
    using present [of "transports s" "producer_key sid"]
    by (simp add: createProducerTransport_def stmt_defs emitted_def Let_def
        AList.update_conv' AList.update_keys)
  have recv: "(let s' = createConsumerTransport sid (Inr t) s in
        map_of (transports s') (consumer_key sid) = Some t
        \<and> (\<forall>k. k \<noteq> consumer_key sid \<longrightarrow> map_of (transports s') k = map_of (transports s) k)
        \<and> (map_of (transports s) (consumer_key sid) \<noteq> None \<longrightarrow>
             map fst (transports s') = map fst (transports s))
        \<and> emitted s s' = [Engine CreateWebRtcTransport, Callback sid (transportOptions t)])"
    using present [of "transports s" "consumer_key sid"]
    by (simp add: createConsumerTransport_def stmt_defs emitted_def Let_def
        AList.update_conv' AList.update_keys)
  show ?thesis
    using one send recv by simp
qed

text \<open>
  C9 at the example run: \<open>A\<close> creates a second send transport, \<open>B\<close> a second receive
  transport.
\<close>

theorem transport_uniqueness_witness:
  "transports (createProducerTransport ''A'' (Inr tB) B_ready)
     = [(''A-producer'', tB), (''B-consumer'', tB)]
   \<and> map fst (transports (createProducerTransport ''A'' (Inr tB) B_ready))
       = map fst (transports B_ready)
   \<and> map_of (transports (createProducerTransport ''A'' (Inr tB) B_ready)) ''B-consumer''
       = Some tB
   \<and> emitted B_ready (createProducerTransport ''A'' (Inr tB) B_ready)
       = [Engine CreateWebRtcTransport, Callback ''A'' (transportOptions tB)]
   \<and> map fst (transports (createConsumerTransport ''B'' (Inr tA) B_ready))
       = map fst (transports B_ready)"
proof -
  have a: "map_of (transports B_ready) (producer_key ''A'') \<noteq> None"
    and b: "map_of (transports B_ready) (consumer_key ''B'') \<noteq> None"
    and k: "''B-consumer'' \<noteq> producer_key ''A''"
    by (simp_all add: B_ready_fields producer_key_def consumer_key_def)
  have explicit: "transports (createProducerTransport ''A'' (Inr tB) B_ready)
     = [(''A-producer'', tB), (''B-consumer'', tB)]"
    by (simp add: createProducerTransport_def stmt_defs B_ready_fields producer_key_def)
  show ?thesis
    using a b k explicit
      transport_uniqueness [where sid = "''A''" and t = tB and s = B_ready and reqs = "[]"]
      transport_uniqueness [where sid = "''B''" and t = tA and s = B_ready and reqs = "[]"]
    by (simp add: Let_def)
qed

subsection \<open>C10: the order of the checks of consume\<close>

text \<open>
  C10. The checks of \<open>consume\<close> are made in a fixed order: a missing receive transport
  is reported first, then an unknown producer, then unset capabilities, then incompatible
  capabilities. In particular a socket with neither a receive transport nor capabilities
  gets the transport error.
\<close>

theorem consume_error_precedence:
  "(map_of (transports s) (consumer_key sid) = None \<longrightarrow>
      emitted s (consume sid pid can res s)
        = [Callback sid (ErrorResponse (message ConsumerTransportNotFound))])
   \<and> (map_of (transports s) (consumer_key sid) \<noteq> None \<and> map_of (producers s) pid = None \<longrightarrow>
      emitted s (consume sid pid can res s)
        = [Callback sid (ErrorResponse (message ProducerNotFound))])
   \<and> (map_of (transports s) (consumer_key sid) \<noteq> None \<and> map_of (producers s) pid \<noteq> None
        \<and> rtpCapabilities s sid = None \<longrightarrow>
      emitted s (consume sid pid can res s)
        = [Callback sid (ErrorResponse (message CapabilitiesUnset))])
   \<and> (map_of (transports s) (consumer_key sid) \<noteq> None \<and> map_of (producers s) pid \<noteq> None
        \<and> rtpCapabilities s sid = Some caps \<and> \<not> can \<longrightarrow>
      emitted s (consume sid pid can res s)
        = [Engine (RouterCanConsume pid caps),
           Callback sid (ErrorResponse (message IncompatibleCapabilities))])"
  by (auto simp: consume_def emitted_def stmt_defs)

text \<open>
  C10 at concrete inputs: one state for each of the four errors.
\<close>

theorem consume_error_precedence_witness:
  "emitted init (consume ''B'' ''p1'' True (Inr c1) init)
     = [Callback ''B'' (ErrorResponse ''Consumer transport not found'')]
   \<and> emitted B_ready (consume ''B'' ''p9'' True (Inr c1) (setRtpCapabilities ''B'' None B_ready))
     = [Callback ''B'' (ErrorResponse ''Producer not found'')]
   \<and> emitted B_ready (consume ''B'' ''p1'' False (Inr c1) (setRtpCapabilities ''B'' None B_ready))
     = [Callback ''B'' (ErrorResponse ''RTP capabilities not set'')]
   \<and> emitted B_ready (consume ''B'' ''p1'' False (Inr c1) B_ready)
     = [Engine (RouterCanConsume ''p1'' ''caps''),
        Callback ''B'' (ErrorResponse ''Cannot consume - incompatible RTP capabilities'')]"
  using consume_error_precedence [where s = init and sid = "''B''" and pid = "''p1''"
          and can = True and res = "Inr c1"]
        consume_error_precedence [where s = "setRtpCapabilities ''B'' None B_ready"
          and sid = "''B''" and pid = "''p9''" and can = True and res = "Inr c1"]
        consume_error_precedence [where s = "setRtpCapabilities ''B'' None B_ready"
          and sid = "''B''" and pid = "''p1''" and can = False and res = "Inr c1"]
        consume_error_precedence [where s = B_ready and sid = "''B''" and pid = "''p1''"
          and can = False and res = "Inr c1" and caps = "''caps''"]
  by (simp add: B_ready_fields init_def consumer_key_def setRtpCapabilities_def emitted_def)

end
